theory Spec2Isabelle
  imports Complex_Main "HOL-Library.Word"
begin

section \<open>The kernel \<open>spherical_sld.c\<close>: scattering from a multi-shell sphere\<close>

text \<open>
  The C file \<^verbatim>\<open>src/sasmodels/models/spherical_sld.c\<close> has four functions:
  \<^verbatim>\<open>form_volume\<close>, \<^verbatim>\<open>blend\<close>, \<^verbatim>\<open>f_linear\<close> and \<^verbatim>\<open>Iq\<close>. They are embedded
  below in the order of the file, each with the names of the source.
\<close>

subsection \<open>The type \<open>double\<close>\<close>

text \<open>
  A \<^verbatim>\<open>double\<close> is a finite number, one of the two infinities, or not-a-number.
  Finite values are real numbers and finite arithmetic is exact: rounding, overflow
  and underflow of the binary64 format are not part of this model, and there is one
  zero, which stands for the positive zero of IEEE 754. The special values follow
  IEEE 754: an operation on not-a-number gives not-a-number, \<open>0/0\<close>,
  \<open>0 \<times> \<infinity>\<close>, \<open>\<infinity> - \<infinity>\<close> and \<open>\<infinity>/\<infinity>\<close> give not-a-number,
  a nonzero finite number divided by zero gives an infinity.
\<close>

datatype dbl = Fin real | PInf | MInf | NaN

fun is_finite :: "dbl \<Rightarrow> bool" where
  "is_finite (Fin x) = True"
| "is_finite d = False"

fun signed_inf :: "bool \<Rightarrow> dbl" where
  "signed_inf True = PInf"
| "signed_inf False = MInf"

instantiation dbl :: "{uminus, plus, minus, times, inverse}"
begin

fun uminus_dbl :: "dbl \<Rightarrow> dbl" where
  "- (Fin x) = Fin (- x)"
| "- PInf = MInf"
| "- MInf = PInf"
| "- NaN = NaN"

fun plus_dbl :: "dbl \<Rightarrow> dbl \<Rightarrow> dbl" where
  "Fin x + Fin y = Fin (x + y)"
| "NaN + b = NaN"
| "a + NaN = NaN"
| "PInf + MInf = NaN"
| "MInf + PInf = NaN"
| "PInf + b = PInf"
| "MInf + b = MInf"
| "a + PInf = PInf"
| "a + MInf = MInf"

definition minus_dbl :: "dbl \<Rightarrow> dbl \<Rightarrow> dbl" where
  "a - b = a + (- b)" for a b :: dbl

fun times_dbl :: "dbl \<Rightarrow> dbl \<Rightarrow> dbl" where
  "Fin x * Fin y = Fin (x * y)"
| "NaN * b = NaN"
| "a * NaN = NaN"
| "Fin x * PInf = (if x = 0 then NaN else signed_inf (0 < x))"
| "Fin x * MInf = (if x = 0 then NaN else signed_inf (x < 0))"
| "PInf * Fin y = (if y = 0 then NaN else signed_inf (0 < y))"
| "MInf * Fin y = (if y = 0 then NaN else signed_inf (y < 0))"
| "PInf * PInf = PInf"
| "PInf * MInf = MInf"
| "MInf * PInf = MInf"
| "MInf * MInf = PInf"

fun divide_dbl :: "dbl \<Rightarrow> dbl \<Rightarrow> dbl" where
  "Fin x div Fin y =
     (if y = 0 then (if x = 0 then NaN else signed_inf (0 < x)) else Fin (x / y))"
| "NaN div b = NaN"
| "a div NaN = NaN"
| "Fin x div PInf = Fin 0"
| "Fin x div MInf = Fin 0"
| "PInf div Fin y = signed_inf (0 \<le> y)"
| "MInf div Fin y = signed_inf (y < 0)"
| "PInf div b = NaN"
| "MInf div b = NaN"

definition inverse_dbl :: "dbl \<Rightarrow> dbl" where
  "inverse a = Fin 1 div a" for a :: dbl

instance ..

end

subsection \<open>Functions of \<open>math.h\<close>\<close>

text \<open>
  \<^verbatim>\<open>fabs\<close>, \<^verbatim>\<open>fmax\<close>, \<^verbatim>\<open>sin\<close>, \<^verbatim>\<open>cos\<close>, \<^verbatim>\<open>expm1\<close> and \<^verbatim>\<open>pow\<close> are the
  mathematical functions on finite arguments, with the special values of C99, Annex F.
  \<^verbatim>\<open>fmax\<close> ignores a not-a-number argument. \<^verbatim>\<open>pow\<close> of a zero base and a negative
  exponent is an infinity (positive here, since the model's zero is the positive one).
\<close>

fun c_fabs :: "dbl \<Rightarrow> dbl" where
  "c_fabs (Fin x) = Fin \<bar>x\<bar>"
| "c_fabs PInf = PInf"
| "c_fabs MInf = PInf"
| "c_fabs NaN = NaN"

fun c_fmax :: "dbl \<Rightarrow> dbl \<Rightarrow> dbl" where
  "c_fmax NaN b = b"
| "c_fmax a NaN = a"
| "c_fmax (Fin x) (Fin y) = Fin (max x y)"
| "c_fmax PInf b = PInf"
| "c_fmax a PInf = PInf"
| "c_fmax MInf b = b"
| "c_fmax a MInf = a"

fun c_sin :: "dbl \<Rightarrow> dbl" where
  "c_sin (Fin x) = Fin (sin x)"
| "c_sin d = NaN"

fun c_cos :: "dbl \<Rightarrow> dbl" where
  "c_cos (Fin x) = Fin (cos x)"
| "c_cos d = NaN"

fun c_expm1 :: "dbl \<Rightarrow> dbl" where
  "c_expm1 (Fin x) = Fin (exp x - 1)"
| "c_expm1 PInf = PInf"
| "c_expm1 MInf = Fin (- 1)"
| "c_expm1 NaN = NaN"

definition is_int :: "real \<Rightarrow> bool" where
  "is_int y = (of_int \<lfloor>y\<rfloor> = y)"

definition is_odd_int :: "real \<Rightarrow> bool" where
  "is_odd_int y = (is_int y \<and> odd \<lfloor>y\<rfloor>)"

fun c_pow :: "dbl \<Rightarrow> dbl \<Rightarrow> dbl" where
  "c_pow (Fin x) (Fin y) =
     (if y = 0 \<or> x = 1 then Fin 1
      else if x = 0 then (if y < 0 then PInf else Fin 0)
      else if 0 < x then Fin (x powr y)
      else if is_odd_int y then Fin (- (\<bar>x\<bar> powr y))
      else if is_int y then Fin (\<bar>x\<bar> powr y)
      else NaN)"
| "c_pow NaN (Fin y) = (if y = 0 then Fin 1 else NaN)"
| "c_pow (Fin x) NaN = (if x = 1 then Fin 1 else NaN)"
| "c_pow (Fin x) PInf =
     (if \<bar>x\<bar> = 1 then Fin 1 else if \<bar>x\<bar> < 1 then Fin 0 else PInf)"
| "c_pow (Fin x) MInf =
     (if \<bar>x\<bar> = 1 then Fin 1 else if \<bar>x\<bar> < 1 then PInf else Fin 0)"
| "c_pow PInf (Fin y) = (if y = 0 then Fin 1 else if y < 0 then Fin 0 else PInf)"
| "c_pow MInf (Fin y) =
     (if y = 0 then Fin 1 else if y < 0 then Fin 0
      else if is_odd_int y then MInf else PInf)"
| "c_pow PInf PInf = PInf"
| "c_pow MInf PInf = PInf"
| "c_pow PInf MInf = Fin 0"
| "c_pow MInf MInf = Fin 0"
| "c_pow a b = NaN"

subsection \<open>Constants and helpers of the kernel library\<close>

text \<open>
  The file uses \<^verbatim>\<open>M_4PI_3\<close>, \<^verbatim>\<open>M_SQRT1_2\<close>, \<^verbatim>\<open>cube\<close>, \<^verbatim>\<open>SINCOS\<close>,
  \<^verbatim>\<open>sph_j1c\<close> and \<^verbatim>\<open>sas_erf\<close> without defining them. The two constants, the cube
  and the combined sine and cosine are fixed by their names and by the specification.
  \<^verbatim>\<open>sph_j1c\<close> and \<^verbatim>\<open>sas_erf\<close> are parameters of the embedding: every function that
  calls one of them takes it as its first argument.
\<close>

text \<open>Modelled from the spec: the macro \<^verbatim>\<open>M_4PI_3\<close> is not in the file; the volume of a
  sphere is \<open>(4/3)\<pi>\<close> times the cube of its radius.\<close>

definition M_4PI_3 :: dbl where
  "M_4PI_3 = Fin (4 * pi / 3)"

text \<open>Modelled from the spec: the macro \<^verbatim>\<open>M_SQRT1_2\<close> is not in the file; the erf profile
  divides its argument by \<open>\<surd>2\<close>.\<close>

definition M_SQRT1_2 :: dbl where
  "M_SQRT1_2 = Fin (1 / sqrt 2)"

text \<open>Modelled from the spec: the helper \<^verbatim>\<open>cube\<close> is not in the file; the third power.\<close>

definition cube :: "dbl \<Rightarrow> dbl" where
  "cube x = x * x * x"

text \<open>Modelled from the spec: \<^verbatim>\<open>sph_j1c\<close> is not in the file; the normalized first-order
  spherical Bessel term \<open>3 (sin x - x cos x) / x\<^sup>3\<close>, which is 1 at 0. It is one
  instance of the parameter \<open>sph_j1c\<close>, used where a concrete one is needed.\<close>

definition sph_j1c_ideal :: "dbl \<Rightarrow> dbl" where
  "sph_j1c_ideal d =
     (case d of
        Fin x \<Rightarrow> Fin (if x = 0 then 1 else 3 * (sin x - x * cos x) / (x * x * x))
      | PInf \<Rightarrow> NaN | MInf \<Rightarrow> NaN | NaN \<Rightarrow> NaN)"

text \<open>Modelled from the spec: \<^verbatim>\<open>sas_erf\<close> is not in the file; the error function, by its
  power series. It is one instance of the parameter \<open>sas_erf\<close>.\<close>

definition sas_erf_ideal :: "dbl \<Rightarrow> dbl" where
  "sas_erf_ideal d =
     (case d of
        Fin x \<Rightarrow>
          Fin (2 / sqrt pi * (\<Sum>n. (- 1) ^ n * x ^ (2 * n + 1) / (fact n * real (2 * n + 1))))
      | PInf \<Rightarrow> Fin 1 | MInf \<Rightarrow> Fin (- 1) | NaN \<Rightarrow> NaN)"

subsection \<open>The type \<open>int\<close>, arrays and faults\<close>

text \<open>
  An \<^verbatim>\<open>int\<close> is a 32-bit word read in two's complement. An array argument is a list;
  reading outside it is undefined in C and is a fault here, as is converting to
  \<^verbatim>\<open>int\<close> a \<^verbatim>\<open>double\<close> whose integral part is not an \<^verbatim>\<open>int\<close>. The third fault
  stands for a call that does not return.
\<close>

type_synonym c_int = "32 word"

datatype fault = Out_Of_Bounds | Cast_Out_Of_Range | No_Return

definition rd :: "dbl list \<Rightarrow> c_int \<Rightarrow> fault + dbl" where
  "rd a i =
     (if 0 \<le> sint i \<and> nat (sint i) < length a then Inr (a ! nat (sint i))
      else Inl Out_Of_Bounds)"

definition int_to_double :: "c_int \<Rightarrow> dbl" where
  "int_to_double i = Fin (real_of_int (sint i))"

definition double_to_int :: "dbl \<Rightarrow> fault + c_int" where
  "double_to_int d =
     (case d of
        Fin x \<Rightarrow>
          (let t = (if 0 \<le> x then \<lfloor>x\<rfloor> else \<lceil>x\<rceil>)
           in if - (2 ^ 31) \<le> t \<and> t < 2 ^ 31 then Inr (word_of_int t)
              else Inl Cast_Out_Of_Range)
      | PInf \<Rightarrow> Inl Cast_Out_Of_Range
      | MInf \<Rightarrow> Inl Cast_Out_Of_Range
      | NaN \<Rightarrow> Inl Cast_Out_Of_Range)"

definition bind_fault :: "fault + 'a \<Rightarrow> ('a \<Rightarrow> fault + 'b) \<Rightarrow> fault + 'b" where
  "bind_fault m k = (case m of Inl e \<Rightarrow> Inl e | Inr v \<Rightarrow> k v)"

text \<open>A body run once for each element of a list, in order, up to the first fault.\<close>

fun fold_fault :: "('a \<Rightarrow> 's \<Rightarrow> fault + 's) \<Rightarrow> 'a list \<Rightarrow> 's \<Rightarrow> fault + 's" where
  "fold_fault body [] s = Inr s"
| "fold_fault body (x # xs) s = bind_fault (body x s) (fold_fault body xs)"

subsection \<open>\<open>form_volume\<close>\<close>




subsection \<open>\<open>blend\<close>\<close>

definition blend :: "(dbl \<Rightarrow> dbl) \<Rightarrow> c_int \<Rightarrow> dbl \<Rightarrow> dbl \<Rightarrow> dbl" where
  "blend sas_erf shape nu z =
     (if shape = 0 then
        (let num = sas_erf (nu * M_SQRT1_2 * (Fin 2 * z - Fin 1));
             denom = Fin 2 * sas_erf (nu * M_SQRT1_2)
         in num / denom + Fin (1 / 2))
      else if shape = 1 then c_pow z nu
      else if shape = 2 then Fin 1 - c_pow (Fin 1 - z) nu
      else if shape = 3 then c_expm1 (- nu * z) / c_expm1 (- nu)
      else if shape = 4 then c_expm1 (nu * z) / c_expm1 nu
      else NaN)"

subsection \<open>\<open>f_linear\<close>\<close>

definition f_linear :: "(dbl \<Rightarrow> dbl) \<Rightarrow> dbl \<Rightarrow> dbl \<Rightarrow> dbl \<Rightarrow> dbl \<Rightarrow> dbl" where
  "f_linear sph_j1c q r contrast slope =
     (let qr = q * r;
          qrsq = qr * qr;
          bes = sph_j1c qr;
          sinqr = c_sin qr;
          cosqr = c_cos qr;
          fn = Fin 3 * r * (Fin 2 * qr * sinqr - (qrsq - Fin 2) * cosqr) / (qrsq * qrsq);
          vol = M_4PI_3 * cube r
      in vol * (bes * contrast + fn * slope))"

subsection \<open>\<open>Iq\<close>\<close>

text \<open>
  The body of the inner loop, lines 77 to 90: the state is \<open>(f, r, sld_in)\<close>, the
  variables the body assigns; the others are read only.
\<close>

fun interface_step ::
  "(dbl \<Rightarrow> dbl) \<Rightarrow> (dbl \<Rightarrow> dbl) \<Rightarrow> dbl \<Rightarrow> c_int \<Rightarrow> dbl \<Rightarrow> dbl \<Rightarrow> dbl \<Rightarrow> dbl \<Rightarrow> c_int \<Rightarrow> c_int \<Rightarrow>
   dbl \<times> dbl \<times> dbl \<Rightarrow> dbl \<times> dbl \<times> dbl" where
  "interface_step sph_j1c sas_erf q n_steps sld_l dr delta nu_shell shape_shell step (f, r, sld_in) =
     (let z = int_to_double step / int_to_double n_steps;
          fraction = blend sas_erf shape_shell nu_shell z;
          sld_out = fraction * delta + sld_l;
          slope = (sld_out - sld_in) / dr;
          contrast = sld_in - slope * r;
          f1 = f - f_linear sph_j1c q r contrast slope;
          r1 = r + dr;
          f2 = f1 + f_linear sph_j1c q r1 contrast slope
      in (f2, r1, sld_out))"

text \<open>
  The inner loop, line 76. \<^verbatim>\<open>step++\<close> is the addition of 32-bit words: at
  \<open>step = INT_MAX\<close> it wraps around to \<open>INT_MIN\<close> (in C the overflow is undefined;
  two's complement is what the usual compilers and processors do). The loop need not
  end, so it is a partial function: \<open>None\<close> is a loop that does not return.
\<close>

partial_function (option) interface_loop ::
  "(dbl \<Rightarrow> dbl) \<Rightarrow> (dbl \<Rightarrow> dbl) \<Rightarrow> dbl \<Rightarrow> c_int \<Rightarrow> dbl \<Rightarrow> dbl \<Rightarrow> dbl \<Rightarrow> dbl \<Rightarrow> c_int \<Rightarrow> c_int \<Rightarrow>
   dbl \<times> dbl \<times> dbl \<Rightarrow> (dbl \<times> dbl \<times> dbl) option" where
  "interface_loop sph_j1c sas_erf q n_steps sld_l dr delta nu_shell shape_shell step s =
     (if sint step \<le> sint n_steps then
        interface_loop sph_j1c sas_erf q n_steps sld_l dr delta nu_shell shape_shell (step + 1)
          (interface_step sph_j1c sas_erf q n_steps sld_l dr delta nu_shell shape_shell step s)
      else Some s)"

text \<open>
  The body of the outer loop, lines 59 to 91, on the state \<open>(f, r)\<close>. The reads come
  in the order of the source; \<^verbatim>\<open>continue\<close> ends the body with the state as it is.
\<close>

fun shell_step ::
  "(dbl \<Rightarrow> dbl) \<Rightarrow> (dbl \<Rightarrow> dbl) \<Rightarrow> dbl \<Rightarrow> c_int \<Rightarrow> dbl \<Rightarrow> dbl list \<Rightarrow> dbl list \<Rightarrow> dbl list \<Rightarrow>
   dbl list \<Rightarrow> dbl list \<Rightarrow> c_int \<Rightarrow> c_int \<Rightarrow> dbl \<times> dbl \<Rightarrow> fault + dbl \<times> dbl" where
  "shell_step sph_j1c sas_erf q n_shells sld_solvent sld thickness interface shape nu n_steps
     shell (f, r) =
     bind_fault (rd sld shell) (\<lambda>sld_l.
     let f1 = f - M_4PI_3 * cube r * sld_l * sph_j1c (q * r) in
     bind_fault (rd thickness shell) (\<lambda>t.
     let r1 = r + t;
         f2 = f1 + M_4PI_3 * cube r1 * sld_l * sph_j1c (q * r1) in
     bind_fault (rd interface shell) (\<lambda>w.
     let dr = w / int_to_double n_steps in
     bind_fault (if shell = n_shells - 1 then Inr sld_solvent else rd sld (shell + 1)) (\<lambda>sld_next.
     let delta = sld_next - sld_l in
     bind_fault (rd nu shell) (\<lambda>nu_i.
     let nu_shell = c_fmax (c_fabs nu_i) (Fin (1 / 10 ^ 14)) in
     bind_fault (rd shape shell) (\<lambda>shape_i.
     bind_fault (double_to_int shape_i) (\<lambda>shape_shell.
     if dr = Fin 0 then Inr (f2, r1)
     else
       (case interface_loop sph_j1c sas_erf q n_steps sld_l dr delta nu_shell shape_shell 1
               (f2, r1, sld_l) of
          None \<Rightarrow> Inl No_Return
        | Some (f3, r2, sld_in) \<Rightarrow> Inr (f3, r2)))))))))"

text \<open>The outer loop, line 58.\<close>

function shell_loop ::
  "(dbl \<Rightarrow> dbl) \<Rightarrow> (dbl \<Rightarrow> dbl) \<Rightarrow> dbl \<Rightarrow> c_int \<Rightarrow> dbl \<Rightarrow> dbl list \<Rightarrow> dbl list \<Rightarrow> dbl list \<Rightarrow>
   dbl list \<Rightarrow> dbl list \<Rightarrow> c_int \<Rightarrow> c_int \<Rightarrow> dbl \<times> dbl \<Rightarrow> fault + dbl \<times> dbl" where
  "shell_loop sph_j1c sas_erf q n_shells sld_solvent sld thickness interface shape nu n_steps
     shell s =
     (if sint shell < sint n_shells then
        bind_fault
          (shell_step sph_j1c sas_erf q n_shells sld_solvent sld thickness interface shape nu
             n_steps shell s)
          (shell_loop sph_j1c sas_erf q n_shells sld_solvent sld thickness interface shape nu
             n_steps (shell + 1))
      else Inr s)"
  by pat_completeness auto
termination
proof (relation "measure (\<lambda>(sph_j1c, sas_erf, q, n_shells, sld_solvent, sld, thickness, interface,
        shape, nu, n_steps, shell, s). nat (sint n_shells - sint shell))")
  fix sph_j1c sas_erf :: "dbl \<Rightarrow> dbl" and q sld_solvent :: dbl and n_shells n_steps shell :: c_int
    and sld thickness interface shape nu :: "dbl list" and s s' :: "dbl \<times> dbl"
  assume lt: "sint shell < sint n_shells"
  have "sint n_shells < 2 ^ 31" "- (2 ^ 31) \<le> sint shell"
    using sint_less [of n_shells] sint_greater_eq [of shell] by simp_all
  with lt have "sint (shell + 1) = sint shell + 1"
    by (simp add: sint_word_ariths signed_take_bit_int_eq_self)
  with lt show "((sph_j1c, sas_erf, q, n_shells, sld_solvent, sld, thickness, interface, shape, nu,
        n_steps, shell + 1, s'),
      (sph_j1c, sas_erf, q, n_shells, sld_solvent, sld, thickness, interface, shape, nu,
        n_steps, shell, s))
    \<in> measure (\<lambda>(sph_j1c, sas_erf, q, n_shells, sld_solvent, sld, thickness, interface,
        shape, nu, n_steps, shell, s). nat (sint n_shells - sint shell))"
    by simp
qed simp

declare shell_loop.simps [simp del]

text \<open>
  \<open>Iq_amplitude\<close> is the value of the variable \<open>f\<close> after line 94; \<open>Iq\<close> is the
  function, which returns \<open>f2\<close>.
\<close>

definition Iq_amplitude ::
  "(dbl \<Rightarrow> dbl) \<Rightarrow> (dbl \<Rightarrow> dbl) \<Rightarrow> dbl \<Rightarrow> c_int \<Rightarrow> dbl \<Rightarrow> dbl list \<Rightarrow> dbl list \<Rightarrow> dbl list \<Rightarrow>
   dbl list \<Rightarrow> dbl list \<Rightarrow> c_int \<Rightarrow> fault + dbl" where
  "Iq_amplitude sph_j1c sas_erf q n_shells sld_solvent sld thickness interface shape nu n_steps =
     bind_fault
       (shell_loop sph_j1c sas_erf q n_shells sld_solvent sld thickness interface shape nu
          n_steps 0 (Fin 0, Fin 0))
       (\<lambda>(f, r). Inr (f - M_4PI_3 * cube r * sld_solvent * sph_j1c (q * r)))"

definition Iq ::
  "(dbl \<Rightarrow> dbl) \<Rightarrow> (dbl \<Rightarrow> dbl) \<Rightarrow> dbl \<Rightarrow> c_int \<Rightarrow> dbl \<Rightarrow> dbl list \<Rightarrow> dbl list \<Rightarrow> dbl list \<Rightarrow>
   dbl list \<Rightarrow> dbl list \<Rightarrow> c_int \<Rightarrow> fault + dbl" where
  "Iq sph_j1c sas_erf q n_shells sld_solvent sld thickness interface shape nu n_steps =
     bind_fault
       (Iq_amplitude sph_j1c sas_erf q n_shells sld_solvent sld thickness interface shape nu
          n_steps)
       (\<lambda>f. let f2 = f * f * Fin (1 / 10 ^ 4) in Inr f2)"

subsection \<open>The specification's words\<close>

text \<open>
  The term of a uniform sphere, as the specification writes it in its testable
  properties: \<open>contrast \<times> (4/3)\<pi> r\<^sup>3 \<times> sph_j1c(qr)\<close>.
\<close>

definition spec_sphere_term :: "(dbl \<Rightarrow> dbl) \<Rightarrow> dbl \<Rightarrow> dbl \<Rightarrow> dbl \<Rightarrow> dbl" where
  "spec_sphere_term sph_j1c q r contrast = contrast * (M_4PI_3 * cube r) * sph_j1c (q * r)"

text \<open>
  The shell profile of the specification's data model: one record per shell, the
  innermost first. \<open>shell_shape\<close> is the blend shape as its integer code.
\<close>

record shell =
  shell_sld :: dbl
  shell_thickness :: dbl
  shell_interface :: dbl
  shell_shape :: c_int
  shell_nu :: dbl

definition shell_profile ::
  "dbl list \<Rightarrow> dbl list \<Rightarrow> dbl list \<Rightarrow> c_int list \<Rightarrow> dbl list \<Rightarrow> shell list" where
  "shell_profile sld thickness interface codes nu =
     map (\<lambda>i. \<lparr>shell_sld = sld ! i, shell_thickness = thickness ! i,
                shell_interface = interface ! i, shell_shape = codes ! i, shell_nu = nu ! i\<rparr>)
       [0..<length sld]"

text \<open>
  The arrays of a call hold a profile of \<open>n_shells\<close> shells when each has that
  length and each entry of \<open>shape\<close> converts to the integer code at the same index.
\<close>

definition arrays_hold ::
  "c_int \<Rightarrow> dbl list \<Rightarrow> dbl list \<Rightarrow> dbl list \<Rightarrow> dbl list \<Rightarrow> dbl list \<Rightarrow> c_int list \<Rightarrow> bool" where
  "arrays_hold n_shells sld thickness interface shape nu codes \<longleftrightarrow>
     sint n_shells = int (length sld) \<and> length thickness = length sld \<and>
     length interface = length sld \<and> length shape = length sld \<and>
     length nu = length sld \<and> map double_to_int shape = map Inr codes"

text \<open>
  The telescoped sum of the specification (section 4.4). The uniform term at the radius
  \<open>r\<close> is \<open>(4/3)\<pi> r\<^sup>3 \<times> sld \<times> sph_j1c(qr)\<close>; the sharpness a blend
  receives is the shell's, clamped to the magnitude \<open>10\<^sup>-\<^sup>1\<^sup>4\<close> at least.
\<close>

definition spec_uniform :: "(dbl \<Rightarrow> dbl) \<Rightarrow> dbl \<Rightarrow> dbl \<Rightarrow> dbl \<Rightarrow> dbl" where
  "spec_uniform sph_j1c q r sld_i = M_4PI_3 * cube r * sld_i * sph_j1c (q * r)"

definition spec_sharpness :: "dbl \<Rightarrow> dbl" where
  "spec_sharpness nu_i = c_fmax (c_fabs nu_i) (Fin (1 / 10 ^ 14))"

text \<open>
  One step of an interface, for the step number \<open>step\<close> of \<open>N\<close>, on the amplitude
  \<open>f\<close>, the radius \<open>r\<close> and the inner density \<open>sld_in\<close>.
\<close>

fun spec_sub_step ::
  "(dbl \<Rightarrow> dbl) \<Rightarrow> (dbl \<Rightarrow> dbl) \<Rightarrow> dbl \<Rightarrow> nat \<Rightarrow> shell \<Rightarrow> dbl \<Rightarrow> dbl \<Rightarrow> nat \<Rightarrow>
   dbl \<times> dbl \<times> dbl \<Rightarrow> dbl \<times> dbl \<times> dbl" where
  "spec_sub_step sph_j1c sas_erf q N sh delta dr step (f, r, sld_in) =
     (let z = Fin (real step / real N);
          sld_out = blend sas_erf (shell_shape sh) (spec_sharpness (shell_nu sh)) z * delta
                      + shell_sld sh;
          slope = (sld_out - sld_in) / dr;
          contrast = sld_in - slope * r
      in (f - f_linear sph_j1c q r contrast slope + f_linear sph_j1c q (r + dr) contrast slope,
          r + dr, sld_out))"

text \<open>
  One shell, on the amplitude \<open>f\<close> and the running radius \<open>r\<close>: the uniform part
  and then, when the interface width is not 0, the steps 1 to \<open>N\<close> of the interface.
  \<open>sld_next\<close> is the density of the next shell, or of the solvent after the last one.
\<close>

fun spec_shell ::
  "(dbl \<Rightarrow> dbl) \<Rightarrow> (dbl \<Rightarrow> dbl) \<Rightarrow> dbl \<Rightarrow> nat \<Rightarrow> dbl \<Rightarrow> shell \<Rightarrow> dbl \<times> dbl \<Rightarrow> dbl \<times> dbl" where
  "spec_shell sph_j1c sas_erf q N sld_next sh (f, r) =
     (let f1 = f - spec_uniform sph_j1c q r (shell_sld sh);
          r1 = r + shell_thickness sh;
          f2 = f1 + spec_uniform sph_j1c q r1 (shell_sld sh)
      in if shell_interface sh = Fin 0 then (f2, r1)
         else
           (let delta = sld_next - shell_sld sh;
                dr = shell_interface sh / Fin (real N);
                (f3, r2, sld_in) =
                  fold (spec_sub_step sph_j1c sas_erf q N sh delta dr) [1..<Suc N]
                    (f2, r1, shell_sld sh)
            in (f3, r2)))"

text \<open>The shells in order, the innermost first.\<close>

fun spec_shells ::
  "(dbl \<Rightarrow> dbl) \<Rightarrow> (dbl \<Rightarrow> dbl) \<Rightarrow> dbl \<Rightarrow> nat \<Rightarrow> dbl \<Rightarrow> shell list \<Rightarrow> dbl \<times> dbl \<Rightarrow> dbl \<times> dbl" where
  "spec_shells sph_j1c sas_erf q N sld_solvent [] s = s"
| "spec_shells sph_j1c sas_erf q N sld_solvent (sh # rest) s =
     spec_shells sph_j1c sas_erf q N sld_solvent rest
       (spec_shell sph_j1c sas_erf q N
          (case rest of [] \<Rightarrow> sld_solvent | nxt # _ \<Rightarrow> shell_sld nxt) sh s)"

definition spec_amplitude ::
  "(dbl \<Rightarrow> dbl) \<Rightarrow> (dbl \<Rightarrow> dbl) \<Rightarrow> dbl \<Rightarrow> nat \<Rightarrow> dbl \<Rightarrow> shell list \<Rightarrow> dbl" where
  "spec_amplitude sph_j1c sas_erf q N sld_solvent profile =
     (let (f, r) = spec_shells sph_j1c sas_erf q N sld_solvent profile (Fin 0, Fin 0)
      in f - spec_uniform sph_j1c q r sld_solvent)"

definition spec_intensity ::
  "(dbl \<Rightarrow> dbl) \<Rightarrow> (dbl \<Rightarrow> dbl) \<Rightarrow> dbl \<Rightarrow> nat \<Rightarrow> dbl \<Rightarrow> shell list \<Rightarrow> dbl" where
  "spec_intensity sph_j1c sas_erf q N sld_solvent profile =
     (let amplitude = spec_amplitude sph_j1c sas_erf q N sld_solvent profile
      in amplitude * amplitude * Fin (1 / 10 ^ 4))"

section \<open>Properties\<close>

subsection \<open>Arithmetic of \<open>int\<close> and \<open>double\<close>\<close>

lemma sint_c_int_bounds: "- 2147483648 \<le> sint (i::c_int)" "sint i \<le> 2147483647"
  using sint_greater_eq [of i] sint_less [of i] by simp_all

lemma sint_succ_max: "sint (i::c_int) < 2147483647 \<Longrightarrow> sint (i + 1) = sint i + 1"
  using sint_c_int_bounds(1) [of i]
  by (simp add: sint_word_ariths signed_take_bit_int_eq_self)

lemma sint_succ: "sint (i::c_int) < sint (n::c_int) \<Longrightarrow> sint (i + 1) = sint i + 1"
  using sint_c_int_bounds(2) [of n] by (intro sint_succ_max) linarith

lemma dbl_nan_right [simp]: "a + NaN = NaN" "a * NaN = NaN" "a / NaN = NaN" "a - NaN = NaN"
  by (cases a; simp add: minus_dbl_def)+

lemma dbl_nan_left [simp]: "NaN - b = NaN"
  by (simp add: minus_dbl_def)

lemma dbl_fin_minus [simp]: "Fin x - Fin y = Fin (x - y)"
  by (simp add: minus_dbl_def)

lemma cube_Fin [simp]: "cube (Fin x) = Fin (x * x * x)"
  by (simp add: cube_def)

lemma bind_fault_simps [simp]:
  "bind_fault (Inl e) k = Inl e" "bind_fault (Inr v) k = k v"
  by (simp_all add: bind_fault_def)


subsection \<open>\<open>form_volume\<close>\<close>




subsection \<open>\<open>f_linear\<close>\<close>

lemma dbl_add_zero [simp]: "a + Fin 0 = a"
  by (cases a) simp_all

lemma signed_inf_eq_iff [simp]: "signed_inf a = signed_inf b \<longleftrightarrow> a = b"
  by (cases a; cases b) simp_all






text \<open>At the radius 0 the quotient of line 39 is \<open>0/0\<close>, for every \<open>q\<close>.\<close>

lemma f_linear_at_zero_radius: "f_linear sph_j1c (Fin q) (Fin 0) contrast slope = NaN"
  by (simp add: f_linear_def Let_def)

subsection \<open>\<open>blend\<close>\<close>




subsection \<open>The interface loop\<close>

lemma sint_of_nat_c_int: "k < 2147483648 \<Longrightarrow> sint (of_nat k :: c_int) = int k"
  by (simp add: signed_of_nat signed_take_bit_int_eq_self)

lemma interface_loop_exit:
  "sint n_steps < sint step \<Longrightarrow>
   interface_loop j e q n_steps sld_l dr delta nu_shell shape_shell step s = Some s"
  by (subst interface_loop.simps) simp

lemma interface_loop_diverges:
  assumes "sint n_steps = 2147483647"
  shows "interface_loop j e q n_steps sld_l dr delta nu_shell shape_shell step s = None"
proof (rule ccontr)
  assume "interface_loop j e q n_steps sld_l dr delta nu_shell shape_shell step s \<noteq> None"
  then obtain y where y: "interface_loop j e q n_steps sld_l dr delta nu_shell shape_shell step s = Some y"
    by auto
  have "sint n_steps \<noteq> 2147483647"
  proof (rule interface_loop.raw_induct
      [where P = "\<lambda>j e q n_steps sld_l dr delta nu_shell shape_shell step s y.
         sint n_steps \<noteq> 2147483647", OF _ y])
    fix loop j e q n_steps sld_l dr delta nu_shell shape_shell step s and y :: "dbl \<times> dbl \<times> dbl"
    assume ih: "\<And>j e q n_steps sld_l dr delta nu_shell shape_shell step s y.
        loop j e q n_steps sld_l dr delta nu_shell shape_shell step s = Some y \<Longrightarrow>
        sint n_steps \<noteq> 2147483647"
      and eq: "(if sint step \<le> sint n_steps
          then loop j e q n_steps sld_l dr delta nu_shell shape_shell (step + 1)
            (interface_step j e q n_steps sld_l dr delta nu_shell shape_shell step s)
          else Some s) = Some y"
    show "sint n_steps \<noteq> 2147483647"
    proof (cases "sint step \<le> sint n_steps")
      case True
      with eq ih show ?thesis by simp
    next
      case False
      then show ?thesis using sint_c_int_bounds(2) [of step] by linarith
    qed
  qed
  with assms show False by simp
qed

lemma interface_loop_fold:
  assumes "sint n_steps < 2147483647" "1 \<le> sint step" "sint step \<le> sint n_steps + 1"
  shows "interface_loop j e q n_steps sld_l dr delta nu_shell shape_shell step s =
    Some (fold (\<lambda>k. interface_step j e q n_steps sld_l dr delta nu_shell shape_shell (of_nat k))
            [nat (sint step)..<Suc (nat (sint n_steps))] s)"
  using assms
proof (induction "nat (sint n_steps + 1 - sint step)" arbitrary: step s)
  case 0
  then have "sint n_steps < sint step" by linarith
  moreover from this 0 have "[nat (sint step)..<Suc (nat (sint n_steps))] = []" by simp
  ultimately show ?case by (simp add: interface_loop_exit)
next
  case (Suc m)
  then have le: "sint step \<le> sint n_steps" by linarith
  with Suc.prems have succ: "sint (step + 1) = sint step + 1"
    by (intro sint_succ_max) linarith
  have m: "m = nat (sint n_steps + 1 - sint (step + 1))" using Suc.hyps(2) succ by linarith
  have ih: "interface_loop j e q n_steps sld_l dr delta nu_shell shape_shell (step + 1) s' =
    Some (fold (\<lambda>k. interface_step j e q n_steps sld_l dr delta nu_shell shape_shell (of_nat k))
            [nat (sint (step + 1))..<Suc (nat (sint n_steps))] s')" for s'
    using Suc.hyps(1) [OF m] Suc.prems succ le by simp
  have nats: "nat (sint (step + 1)) = Suc (nat (sint step))" "nat (sint step) < Suc (nat (sint n_steps))"
    using succ Suc.prems(2) le by linarith+
  have again: "(of_nat (nat (sint step)) :: c_int) = step"
    using Suc.prems(2) by simp
  show ?case
    using le
    by (subst interface_loop.simps) (simp add: ih nats upt_conv_Cons [OF nats(2)] again del: upt_Suc)
qed

lemma interface_step_spec:
  assumes "1 \<le> sint n_steps" "k < 2147483648"
  shows "interface_step j e q n_steps (shell_sld sh) dr delta (spec_sharpness (shell_nu sh))
      (shell_shape sh) (of_nat k) s =
    spec_sub_step j e q (nat (sint n_steps)) sh delta dr k s"
proof -
  have "real_of_int (sint n_steps) \<noteq> 0" "real (nat (sint n_steps)) = real_of_int (sint n_steps)"
    using assms(1) by (simp_all del: of_int_sint)
  then show ?thesis
    using assms(2)
    by (cases s) (simp add: int_to_double_def sint_of_nat_c_int Let_def del: of_int_sint)
qed

lemma dr_zero_iff: "1 \<le> n \<Longrightarrow> w / Fin (real_of_int n) = Fin 0 \<longleftrightarrow> w = Fin 0"
  by (cases w) auto

lemma interface_loop_spec:
  assumes "1 \<le> sint n_steps" "sint n_steps < 2147483647"
  shows "interface_loop j e q n_steps (shell_sld sh) dr delta (spec_sharpness (shell_nu sh))
      (shell_shape sh) 1 s =
    Some (fold (spec_sub_step j e q (nat (sint n_steps)) sh delta dr)
      [1..<Suc (nat (sint n_steps))] s)"
proof -
  have "interface_step j e q n_steps (shell_sld sh) dr delta (spec_sharpness (shell_nu sh))
        (shell_shape sh) (of_nat k) =
      spec_sub_step j e q (nat (sint n_steps)) sh delta dr k"
    if "k \<in> set [1..<Suc (nat (sint n_steps))]" for k
  proof (rule ext)
    fix s
    have "k < 2147483648" using that assms(2) by (simp del: upt_Suc) linarith
    with assms(1) show "interface_step j e q n_steps (shell_sld sh) dr delta
        (spec_sharpness (shell_nu sh)) (shell_shape sh) (of_nat k) s =
      spec_sub_step j e q (nat (sint n_steps)) sh delta dr k s"
      by (rule interface_step_spec)
  qed
  then have "fold (\<lambda>k. interface_step j e q n_steps (shell_sld sh) dr delta
          (spec_sharpness (shell_nu sh)) (shell_shape sh) (of_nat k))
        [1..<Suc (nat (sint n_steps))] s =
      fold (spec_sub_step j e q (nat (sint n_steps)) sh delta dr) [1..<Suc (nat (sint n_steps))] s"
    by (intro fold_cong refl)
  moreover have "interface_loop j e q n_steps (shell_sld sh) dr delta (spec_sharpness (shell_nu sh))
      (shell_shape sh) 1 s =
    Some (fold (\<lambda>k. interface_step j e q n_steps (shell_sld sh) dr delta
          (spec_sharpness (shell_nu sh)) (shell_shape sh) (of_nat k))
        [nat (sint (1::c_int))..<Suc (nat (sint n_steps))] s)"
    using assms by (intro interface_loop_fold) simp_all
  ultimately show ?thesis by (simp del: upt_Suc)
qed

subsection \<open>The shell loop and the specification\<close>

lemma c_int_of_nat_eq_iff:
  "a < 2147483648 \<Longrightarrow> b < 2147483648 \<Longrightarrow> (of_nat a :: c_int) = of_nat b \<longleftrightarrow> a = b"
  by (simp add: word_of_nat_eq_iff take_bit_nat_eq_self)

lemma arrays_hold_lengths:
  assumes "arrays_hold n_shells sld thickness interface shape nu codes"
  shows "length sld < 2147483648" "n_shells = of_nat (length sld)"
    "length thickness = length sld" "length interface = length sld"
    "length shape = length sld" "length nu = length sld" "length codes = length sld"
    "i < length sld \<Longrightarrow> double_to_int (shape ! i) = Inr (codes ! i)"
proof -
  from assms have n: "sint n_shells = int (length sld)"
    and rest: "length thickness = length sld" "length interface = length sld"
      "length shape = length sld" "length nu = length sld"
    and codes: "map double_to_int shape = map Inr codes"
    by (simp_all add: arrays_hold_def)
  show "length sld < 2147483648" using n sint_c_int_bounds(2) [of n_shells] by linarith
  have "n_shells = word_of_int (sint n_shells)" by (simp add: scast_eq [symmetric])
  then show "n_shells = of_nat (length sld)" unfolding n by simp
  show "length thickness = length sld" "length interface = length sld"
    "length shape = length sld" "length nu = length sld" by (fact rest)+
  from codes have "length (map double_to_int shape) = length (map Inr codes :: (fault + c_int) list)"
    by simp
  then show len: "length codes = length sld" using rest by simp
  show "double_to_int (shape ! i) = Inr (codes ! i)" if "i < length sld"
  proof -
    have "map double_to_int shape ! i = (map Inr codes :: (fault + c_int) list) ! i"
      using codes by simp
    then show ?thesis using that rest len by simp
  qed
qed

lemma rd_of_nat:
  "i < length xs \<Longrightarrow> i < 2147483648 \<Longrightarrow> rd xs (of_nat i) = Inr (xs ! i)"
  by (simp add: rd_def sint_of_nat_c_int)

lemma shell_profile_nth:
  "i < length sld \<Longrightarrow> shell_profile sld thickness interface codes nu ! i =
    \<lparr>shell_sld = sld ! i, shell_thickness = thickness ! i, shell_interface = interface ! i,
     shell_shape = codes ! i, shell_nu = nu ! i\<rparr>"
  by (simp add: shell_profile_def)

lemma shell_profile_length [simp]:
  "length (shell_profile sld thickness interface codes nu) = length sld"
  by (simp add: shell_profile_def)

lemma next_sld_drop:
  "(case drop (Suc i) (shell_profile sld thickness interface codes nu) of
      [] \<Rightarrow> sld_solvent | nxt # _ \<Rightarrow> shell_sld nxt) =
   (if Suc i < length sld then sld ! Suc i else sld_solvent)"
proof (cases "Suc i < length sld")
  case True
  then have "drop (Suc i) (shell_profile sld thickness interface codes nu) =
      shell_profile sld thickness interface codes nu ! Suc i #
      drop (Suc (Suc i)) (shell_profile sld thickness interface codes nu)"
    by (simp add: Cons_nth_drop_Suc)
  with True show ?thesis by (simp add: shell_profile_nth)
next
  case False
  then show ?thesis by simp
qed

lemma shell_step_spec:
  assumes ok: "arrays_hold n_shells sld thickness interface shape nu codes"
    and steps: "1 \<le> sint n_steps" "sint n_steps < 2147483647"
    and i: "i < length sld"
  shows "shell_step j e q n_shells sld_solvent sld thickness interface shape nu n_steps (of_nat i) s =
    Inr (spec_shell j e q (nat (sint n_steps))
      (if Suc i < length sld then sld ! Suc i else sld_solvent)
      (shell_profile sld thickness interface codes nu ! i) s)"
proof -
  obtain f r where s: "s = (f, r)" by (cases s)
  note len = arrays_hold_lengths [OF ok]
  have i31: "i < 2147483648" "Suc i < 2147483648 \<or> Suc i = length sld"
    using i len(1) by linarith+
  have last: "(of_nat i :: c_int) = n_shells - 1 \<longleftrightarrow> Suc i = length sld"
  proof -
    have "(of_nat i :: c_int) = n_shells - 1 \<longleftrightarrow> (of_nat (Suc i) :: c_int) = of_nat (length sld)"
      unfolding len(2) by (simp add: eq_diff_eq add.commute)
    also have "\<dots> \<longleftrightarrow> Suc i = length sld"
      using i len(1) by (intro c_int_of_nat_eq_iff) linarith+
    finally show ?thesis .
  qed
  have reads: "rd sld (of_nat i) = Inr (sld ! i)" "rd thickness (of_nat i) = Inr (thickness ! i)"
    "rd interface (of_nat i) = Inr (interface ! i)" "rd nu (of_nat i) = Inr (nu ! i)"
    "rd shape (of_nat i) = Inr (shape ! i)"
    using i i31(1) len by (simp_all add: rd_of_nat)
  have nxt: "rd sld (of_nat i + 1) = Inr (sld ! Suc i)" if "Suc i < length sld"
    using rd_of_nat [of "Suc i" sld] that len(1) by (simp add: add.commute)
  have n: "real (nat (sint n_steps)) = real_of_int (sint n_steps)" "1 \<le> sint n_steps"
    using steps(1) by (simp_all del: of_int_sint)
  let ?sh = "\<lparr>shell_sld = sld ! i, shell_thickness = thickness ! i, shell_interface = interface ! i,
     shell_shape = codes ! i, shell_nu = nu ! i\<rparr>"
  have loop: "interface_loop j e q n_steps (sld ! i) dr delta
      (c_fmax (c_fabs (nu ! i)) (Fin (1 / 100000000000000))) (codes ! i) 1 s' =
    Some (fold (spec_sub_step j e q (nat (sint n_steps)) ?sh delta dr)
      [1..<Suc (nat (sint n_steps))] s')" for dr delta s'
    using interface_loop_spec [OF steps, of j e q ?sh dr delta s']
    by (simp add: spec_sharpness_def del: upt_Suc)
  show ?thesis
    using i
    unfolding s
    by (cases "Suc i < length sld")
       (auto simp add: reads nxt last len(8) shell_profile_nth spec_uniform_def Let_def
          int_to_double_def n dr_zero_iff loop split: prod.splits simp del: upt_Suc of_int_sint)
qed

lemma shell_loop_spec:
  assumes ok: "arrays_hold n_shells sld thickness interface shape nu codes"
    and steps: "1 \<le> sint n_steps" "sint n_steps < 2147483647"
    and i: "i \<le> length sld"
  shows "shell_loop j e q n_shells sld_solvent sld thickness interface shape nu n_steps (of_nat i) s =
    Inr (spec_shells j e q (nat (sint n_steps)) sld_solvent
      (drop i (shell_profile sld thickness interface codes nu)) s)"
  using i
proof (induction "length sld - i" arbitrary: i s)
  case 0
  note len = arrays_hold_lengths [OF ok]
  from 0 have "i = length sld" by simp
  then show ?case
    by (subst shell_loop.simps) (simp add: len(2) [symmetric])
next
  case (Suc m)
  note len = arrays_hold_lengths [OF ok]
  from Suc have i: "i < length sld" by linarith
  then have guard: "sint (of_nat i :: c_int) < sint n_shells"
    using len(1) by (simp add: len(2) sint_of_nat_c_int)
  have m: "m = length sld - Suc i" using Suc.hyps(2) by linarith
  have next_index: "(of_nat i :: c_int) + 1 = of_nat (Suc i)" by simp
  have drop: "drop i (shell_profile sld thickness interface codes nu) =
      shell_profile sld thickness interface codes nu ! i #
      drop (Suc i) (shell_profile sld thickness interface codes nu)"
    using i by (simp add: Cons_nth_drop_Suc)
  show ?case
    using i
    by (subst shell_loop.simps)
       (simp only: guard if_True shell_step_spec [OF ok steps i] bind_fault_simps next_index
          Suc.hyps(1) [OF m] drop spec_shells.simps next_sld_drop Suc_leI)
qed

text \<open>
  C1, as amended. For arrays that hold a profile of \<open>n_shells\<close> shells and
  \<open>1 \<le> n_steps < INT_MAX\<close>, the amplitude that \<open>Iq\<close> accumulates is the telescoped
  sum of the specification, for every blend shape code, and the intensity it returns
  is the square of that amplitude times \<open>10\<^sup>-\<^sup>4\<close>.
\<close>

theorem Iq_telescoped_sum:
  assumes "arrays_hold n_shells sld thickness interface shape nu codes"
    and "1 \<le> sint n_steps" "sint n_steps < 2147483647"
  shows "Iq_amplitude sph_j1c sas_erf q n_shells sld_solvent sld thickness interface shape nu n_steps =
      Inr (spec_amplitude sph_j1c sas_erf q (nat (sint n_steps)) sld_solvent
        (shell_profile sld thickness interface codes nu))
    \<and> Iq sph_j1c sas_erf q n_shells sld_solvent sld thickness interface shape nu n_steps =
      Inr (spec_intensity sph_j1c sas_erf q (nat (sint n_steps)) sld_solvent
        (shell_profile sld thickness interface codes nu))"
proof -
  have "shell_loop sph_j1c sas_erf q n_shells sld_solvent sld thickness interface shape nu n_steps
      (of_nat 0) (Fin 0, Fin 0) =
    Inr (spec_shells sph_j1c sas_erf q (nat (sint n_steps)) sld_solvent
      (drop 0 (shell_profile sld thickness interface codes nu)) (Fin 0, Fin 0))"
    using assms by (intro shell_loop_spec) simp_all
  then have amp: "Iq_amplitude sph_j1c sas_erf q n_shells sld_solvent sld thickness interface shape
      nu n_steps =
    Inr (spec_amplitude sph_j1c sas_erf q (nat (sint n_steps)) sld_solvent
      (shell_profile sld thickness interface codes nu))"
    by (simp add: Iq_amplitude_def spec_amplitude_def spec_uniform_def split: prod.splits)
  then show ?thesis
    by (simp add: Iq_def spec_intensity_def Let_def)
qed

theorem Iq_telescoped_sum_witness:
  "arrays_hold 1 [Fin 1] [Fin 1] [Fin 1] [Fin 1] [Fin 1] [1] \<and>
   1 \<le> sint (2::c_int) \<and> sint (2::c_int) < 2147483647 \<and>
   Iq_amplitude sph_j1c_ideal sas_erf_ideal (Fin 1) 1 (Fin 0) [Fin 1] [Fin 1] [Fin 1] [Fin 1] [Fin 1] 2 =
     Inr (spec_amplitude sph_j1c_ideal sas_erf_ideal (Fin 1) (nat (sint (2::c_int))) (Fin 0)
       (shell_profile [Fin 1] [Fin 1] [Fin 1] [1] [Fin 1])) \<and>
   Iq sph_j1c_ideal sas_erf_ideal (Fin 1) 1 (Fin 0) [Fin 1] [Fin 1] [Fin 1] [Fin 1] [Fin 1] 2 =
     Inr (spec_intensity sph_j1c_ideal sas_erf_ideal (Fin 1) (nat (sint (2::c_int))) (Fin 0)
       (shell_profile [Fin 1] [Fin 1] [Fin 1] [1] [Fin 1]))"
proof -
  have ok: "arrays_hold 1 [Fin 1] [Fin 1] [Fin 1] [Fin 1] [Fin 1] [1]"
    by (simp add: arrays_hold_def double_to_int_def)
  have steps: "1 \<le> sint (2::c_int)" "sint (2::c_int) < 2147483647" by simp_all
  show ?thesis
    using Iq_telescoped_sum [OF ok steps, of sph_j1c_ideal sas_erf_ideal "Fin 1" "Fin 0"] ok steps
    by blast
qed

lemma double_to_int_of_int:
  "- 2147483648 \<le> k \<Longrightarrow> k < 2147483648 \<Longrightarrow> double_to_int (Fin (real_of_int k)) = Inr (word_of_int k)"
  by (simp add: double_to_int_def)

lemma single_shell_no_return:
  assumes "sint n_steps = 2147483647" "w \<noteq> 0" "double_to_int shape_0 = Inr code"
  shows "shell_loop j e q 1 sld_solvent [sld_0] [t] [Fin w] [shape_0] [nu_0] n_steps 0 (Fin 0, Fin 0) =
    Inl No_Return"
proof -
  have "Fin w / Fin (real_of_int (sint n_steps)) \<noteq> Fin 0"
    using assms(1,2) by simp
  then show ?thesis
    using assms
    by (subst shell_loop.simps)
       (simp add: rd_def int_to_double_def Let_def interface_loop_diverges del: of_int_sint)
qed

text \<open>
  C1 as stated fails at \<open>n_steps = INT_MAX\<close> for a shell with an interface: the
  condition \<open>step \<le> n_steps\<close> of line 76 holds for every \<open>int\<close>, so the inner
  loop does not end and \<open>Iq\<close> accumulates no amplitude.
\<close>

theorem Iq_telescoped_sum_counterexample:
  "Iq_amplitude sph_j1c_ideal sas_erf_ideal (Fin 1) 1 (Fin 0) [Fin 1] [Fin 1] [Fin 1] [Fin 1] [Fin 1]
     2147483647 \<noteq>
   Inr (spec_amplitude sph_j1c_ideal sas_erf_ideal (Fin 1) (nat (sint (2147483647::c_int))) (Fin 0)
     (shell_profile [Fin 1] [Fin 1] [Fin 1] [1] [Fin 1]))"
proof -
  have "double_to_int (Fin 1) = Inr 1"
    using double_to_int_of_int [of 1] by simp
  then have "shell_loop sph_j1c_ideal sas_erf_ideal (Fin 1) 1 (Fin 0) [Fin 1] [Fin 1] [Fin 1] [Fin 1]
      [Fin 1] 2147483647 0 (Fin 0, Fin 0) = Inl No_Return"
    by (intro single_shell_no_return) simp_all
  then show ?thesis by (simp add: Iq_amplitude_def)
qed

subsection \<open>Not-a-number from an unknown blend shape\<close>


lemma f_linear_nan_slope [simp]: "f_linear j q r contrast NaN = NaN"
  by (simp add: f_linear_def Let_def)













subsection \<open>Termination\<close>

lemma shell_loop_fold:
  assumes "0 \<le> sint n_shells" "i \<le> nat (sint n_shells)"
  shows "shell_loop j e q n_shells sld_solvent sld thickness interface shape nu n_steps (of_nat i) s =
    fold_fault
      (\<lambda>k. shell_step j e q n_shells sld_solvent sld thickness interface shape nu n_steps (of_nat k))
      [i..<nat (sint n_shells)] s"
  using assms(2)
proof (induction "nat (sint n_shells) - i" arbitrary: i s)
  case 0
  then have "i = nat (sint n_shells)" by simp
  then have "sint (of_nat i :: c_int) = sint n_shells"
    using assms(1) by simp
  then show ?case
    using \<open>i = nat (sint n_shells)\<close> by (subst shell_loop.simps) simp
next
  case (Suc m)
  then have i: "i < nat (sint n_shells)" by linarith
  then have "i < 2147483648" using sint_c_int_bounds(2) [of n_shells] by linarith
  then have guard: "sint (of_nat i :: c_int) < sint n_shells"
    using i by (simp add: sint_of_nat_c_int)
  have m: "m = nat (sint n_shells) - Suc i" using Suc.hyps(2) by linarith
  have next_index: "(of_nat i :: c_int) + 1 = of_nat (Suc i)" by simp
  have ih: "shell_loop j e q n_shells sld_solvent sld thickness interface shape nu n_steps
      (of_nat (Suc i)) =
    fold_fault
      (\<lambda>k. shell_step j e q n_shells sld_solvent sld thickness interface shape nu n_steps (of_nat k))
      [Suc i..<nat (sint n_shells)]"
    using Suc.hyps(1) [OF m] i by (intro ext) simp
  show ?case
    by (subst shell_loop.simps)
       (simp only: guard if_True next_index ih upt_conv_Cons [OF i] fold_fault.simps)
qed

text \<open>
  C8, as amended. For arrays that hold a profile of \<open>n_shells\<close> shells and
  \<open>1 \<le> n_steps < INT_MAX\<close>, \<open>Iq\<close> returns a value. The outer loop runs its body
  once for each of the indices 0 to \<open>n_shells - 1\<close>, and an inner loop runs its body
  once for each of the \<open>n_steps\<close> steps 1 to \<open>n_steps\<close>.
\<close>

theorem Iq_terminates:
  assumes "arrays_hold n_shells sld thickness interface shape nu codes"
    and "1 \<le> sint n_steps" "sint n_steps < 2147483647"
  shows "(\<exists>v. Iq sph_j1c sas_erf q n_shells sld_solvent sld thickness interface shape nu n_steps = Inr v)
    \<and> shell_loop sph_j1c sas_erf q n_shells sld_solvent sld thickness interface shape nu n_steps 0 s =
        fold_fault
          (\<lambda>k. shell_step sph_j1c sas_erf q n_shells sld_solvent sld thickness interface shape nu
                 n_steps (of_nat k))
          [0..<nat (sint n_shells)] s
    \<and> interface_loop sph_j1c sas_erf q n_steps sld_l dr delta nu_shell shape_shell 1 t =
        Some (fold
          (\<lambda>k. interface_step sph_j1c sas_erf q n_steps sld_l dr delta nu_shell shape_shell (of_nat k))
          [1..<Suc (nat (sint n_steps))] t)
    \<and> length [1..<Suc (nat (sint n_steps))] = nat (sint n_steps)"
proof -
  have n: "0 \<le> sint n_shells" using assms(1) by (simp add: arrays_hold_def)
  have "shell_loop sph_j1c sas_erf q n_shells sld_solvent sld thickness interface shape nu n_steps
      (of_nat 0) (Fin 0, Fin 0) =
    Inr (spec_shells sph_j1c sas_erf q (nat (sint n_steps)) sld_solvent
      (drop 0 (shell_profile sld thickness interface codes nu)) (Fin 0, Fin 0))"
    using assms by (intro shell_loop_spec) simp_all
  then have "\<exists>v. Iq sph_j1c sas_erf q n_shells sld_solvent sld thickness interface shape nu n_steps = Inr v"
    by (simp add: Iq_def Iq_amplitude_def split: prod.splits)
  moreover have "shell_loop sph_j1c sas_erf q n_shells sld_solvent sld thickness interface shape nu
      n_steps (of_nat 0) s =
    fold_fault
      (\<lambda>k. shell_step sph_j1c sas_erf q n_shells sld_solvent sld thickness interface shape nu
             n_steps (of_nat k))
      [0..<nat (sint n_shells)] s"
    using n by (intro shell_loop_fold) simp_all
  moreover have "interface_loop sph_j1c sas_erf q n_steps sld_l dr delta nu_shell shape_shell 1 t =
    Some (fold
      (\<lambda>k. interface_step sph_j1c sas_erf q n_steps sld_l dr delta nu_shell shape_shell (of_nat k))
      [nat (sint (1::c_int))..<Suc (nat (sint n_steps))] t)"
    using assms(2,3) by (intro interface_loop_fold) simp_all
  ultimately show ?thesis by (simp del: upt_Suc)
qed

theorem Iq_terminates_witness:
  "arrays_hold 1 [Fin 1] [Fin 1] [Fin 1] [Fin 1] [Fin 1] [1] \<and>
   1 \<le> sint (3::c_int) \<and> sint (3::c_int) < 2147483647 \<and>
   (\<exists>v. Iq sph_j1c_ideal sas_erf_ideal (Fin 1) 1 (Fin 0) [Fin 1] [Fin 1] [Fin 1] [Fin 1] [Fin 1] 3 = Inr v)"
proof -
  have ok: "arrays_hold 1 [Fin 1] [Fin 1] [Fin 1] [Fin 1] [Fin 1] [1]"
    using double_to_int_of_int [of 1] by (simp add: arrays_hold_def)
  have steps: "1 \<le> sint (3::c_int)" "sint (3::c_int) < 2147483647" by simp_all
  show ?thesis
    using Iq_terminates [OF ok steps, of sph_j1c_ideal sas_erf_ideal "Fin 1" "Fin 0"] ok steps
    by blast
qed

text \<open>
  C8 as stated fails at \<open>n_steps = INT_MAX\<close>: \<open>step \<le> n_steps\<close> holds for every
  \<open>int\<close>, \<^verbatim>\<open>step++\<close> overflows at \<open>INT_MAX\<close>, and the inner loop does not end.
\<close>

theorem Iq_terminates_counterexample:
  "Iq sph_j1c_ideal sas_erf_ideal (Fin 2) 1 (Fin 0) [Fin 1] [Fin 3] [Fin 2] [Fin 0] [Fin 1]
     2147483647 = Inl No_Return"
proof -
  have "double_to_int (Fin 0) = Inr 0"
    using double_to_int_of_int [of 0] by simp
  then have "shell_loop sph_j1c_ideal sas_erf_ideal (Fin 2) 1 (Fin 0) [Fin 1] [Fin 3] [Fin 2] [Fin 0]
      [Fin 1] 2147483647 0 (Fin 0, Fin 0) = Inl No_Return"
    by (intro single_shell_no_return) simp_all
  then show ?thesis by (simp add: Iq_def Iq_amplitude_def)
qed

subsection \<open>The single-shell scenario\<close>

lemma is_finite_obtain: "is_finite d \<Longrightarrow> \<exists>x. d = Fin x"
  by (cases d) simp_all

text \<open>
  C2. For one shell with \<open>sld = [1]\<close>, \<open>thickness = [10]\<close>, \<open>interface = [0]\<close>,
  the solvent density 0 and \<open>q = 0.05\<close>, for every \<open>n_steps \<ge> 1\<close>, every shape
  code and every sharpness, the amplitude that \<open>Iq\<close> accumulates is the term of the
  uniform sphere of radius 10 and contrast 1, \<open>(4/3)\<pi> 10\<^sup>3 \<times> sph_j1c(0.05 \<times> 10)\<close>,
  and the intensity is its square times \<open>10\<^sup>-\<^sup>4\<close>; \<open>sph_j1c\<close> is any function
  with finite values at 0 and at 0.5.
\<close>

theorem Iq_single_shell:
  assumes "double_to_int shape_0 = Inr code" "1 \<le> sint n_steps"
    and "is_finite (sph_j1c (Fin 0))" "is_finite (sph_j1c (Fin (1 / 2)))"
  shows "Iq_amplitude sph_j1c sas_erf (Fin (1 / 20)) 1 (Fin 0) [Fin 1] [Fin 10] [Fin 0] [shape_0]
        [nu_0] n_steps =
      Inr (spec_sphere_term sph_j1c (Fin (1 / 20)) (Fin 10) (Fin 1))
    \<and> spec_sphere_term sph_j1c (Fin (1 / 20)) (Fin 10) (Fin 1) =
      Fin (4 / 3 * pi * 10 ^ 3) * sph_j1c (Fin (1 / 20 * 10))
    \<and> Iq sph_j1c sas_erf (Fin (1 / 20)) 1 (Fin 0) [Fin 1] [Fin 10] [Fin 0] [shape_0] [nu_0] n_steps =
      Inr (spec_sphere_term sph_j1c (Fin (1 / 20)) (Fin 10) (Fin 1)
           * spec_sphere_term sph_j1c (Fin (1 / 20)) (Fin 10) (Fin 1) * Fin (1 / 10 ^ 4))"
proof -
  obtain b0 b1 where b: "sph_j1c (Fin 0) = Fin b0" "sph_j1c (Fin (1 / 2)) = Fin b1"
    using assms(3,4) is_finite_obtain by blast
  have n: "real_of_int (sint n_steps) \<noteq> 0" using assms(2) by (simp del: of_int_sint)
  have past: "\<not> sint (1::c_int) < sint (1::c_int)" by simp
  have "shell_loop sph_j1c sas_erf (Fin (1 / 20)) 1 (Fin 0) [Fin 1] [Fin 10] [Fin 0] [shape_0] [nu_0]
      n_steps 0 (Fin 0, Fin 0) = Inr (Fin (4 * pi / 3 * 1000 * b1), Fin 10)"
    using n
    by (subst shell_loop.simps)
       (simp add: rd_def assms(1) b M_4PI_3_def int_to_double_def Let_def
          shell_loop.simps [where n_shells = 1 and shell = 1] del: of_int_sint)
  then have amp: "Iq_amplitude sph_j1c sas_erf (Fin (1 / 20)) 1 (Fin 0) [Fin 1] [Fin 10] [Fin 0]
      [shape_0] [nu_0] n_steps = Inr (Fin (4 * pi / 3 * 1000 * b1))"
    by (simp add: Iq_amplitude_def M_4PI_3_def b)
  have ut: "spec_sphere_term sph_j1c (Fin (1 / 20)) (Fin 10) (Fin 1) = Fin (4 * pi / 3 * 1000 * b1)"
    by (simp add: spec_sphere_term_def M_4PI_3_def b)
  show ?thesis
    by (simp add: amp ut Iq_def b)
qed

theorem Iq_single_shell_witness:
  "double_to_int (Fin 7) = Inr 7 \<and> 1 \<le> sint (20::c_int) \<and>
   is_finite (sph_j1c_ideal (Fin 0)) \<and> is_finite (sph_j1c_ideal (Fin (1 / 2))) \<and>
   Iq_amplitude sph_j1c_ideal sas_erf_ideal (Fin (1 / 20)) 1 (Fin 0) [Fin 1] [Fin 10] [Fin 0] [Fin 7]
     [Fin (- 3)] 20 =
   Inr (spec_sphere_term sph_j1c_ideal (Fin (1 / 20)) (Fin 10) (Fin 1))"
proof -
  have shape: "double_to_int (Fin 7) = Inr (7::c_int)"
    using double_to_int_of_int [of 7] by simp
  have steps: "1 \<le> sint (20::c_int)" by simp
  have fin: "is_finite (sph_j1c_ideal (Fin 0))" "is_finite (sph_j1c_ideal (Fin (1 / 2)))"
    by (simp_all add: sph_j1c_ideal_def)
  show ?thesis
    using Iq_single_shell [OF shape steps fin, of sas_erf_ideal "Fin (- 3)"] shape steps fin
    by blast
qed

subsection \<open>The sign of the sharpness\<close>

lemma c_fabs_uminus [simp]: "c_fabs (- a) = c_fabs a"
  by (cases a) simp_all

lemma c_fabs_negated_entry: "c_fabs (nu[i := - (nu ! i)] ! k) = c_fabs (nu ! k)"
proof (cases "i = k \<and> i < length nu")
  case True
  then show ?thesis by simp
next
  case False
  then have "nu[i := - (nu ! i)] ! k = nu ! k"
    by (cases "i = k") (simp_all add: list_update_beyond)
  then show ?thesis by simp
qed

lemma rd_negated_entry:
  "(\<exists>e. rd (nu[i := - (nu ! i)]) k = Inl e \<and> rd nu k = Inl e) \<or>
   (\<exists>x y. rd (nu[i := - (nu ! i)]) k = Inr x \<and> rd nu k = Inr y \<and> c_fabs x = c_fabs y)"
  by (simp add: rd_def c_fabs_negated_entry)

lemma shell_step_sharpness_sign:
  "shell_step j e q n_shells sld_solvent sld thickness interface shape (nu[i := - (nu ! i)]) n_steps
     shell s =
   shell_step j e q n_shells sld_solvent sld thickness interface shape nu n_steps shell s"
proof -
  obtain f r where s: "s = (f, r)" by (cases s)
  from rd_negated_entry [of nu i shell] show ?thesis
  proof (elim disjE exE conjE)
    fix e
    assume "rd (nu[i := - (nu ! i)]) shell = Inl e" "rd nu shell = Inl e"
    then show ?thesis unfolding s shell_step.simps Let_def by simp
  next
    fix x y
    assume reads: "rd (nu[i := - (nu ! i)]) shell = Inr x" "rd nu shell = Inr y"
      and same: "c_fabs x = c_fabs y"
    show ?thesis unfolding s shell_step.simps Let_def reads bind_fault_simps same ..
  qed
qed

lemma shell_loop_cong:
  assumes "\<And>shell s. shell_step j e q n_shells sld_solvent sld thickness interface shape nu n_steps shell s =
      shell_step j' e' q' n_shells sld_solvent' sld' thickness' interface' shape' nu' n_steps' shell s"
  shows "shell_loop j e q n_shells sld_solvent sld thickness interface shape nu n_steps shell s =
      shell_loop j' e' q' n_shells sld_solvent' sld' thickness' interface' shape' nu' n_steps' shell s"
proof (induction "nat (sint n_shells - sint shell)" arbitrary: shell s)
  case 0
  then have "\<not> sint shell < sint n_shells" by simp
  then show ?case by (simp add: shell_loop.simps)
next
  case (Suc m)
  then have lt: "sint shell < sint n_shells" by linarith
  then have "sint (shell + 1) = sint shell + 1" by (rule sint_succ)
  then have m: "m = nat (sint n_shells - sint (shell + 1))" using Suc.hyps(2) by linarith
  have "shell_loop j e q n_shells sld_solvent sld thickness interface shape nu n_steps (shell + 1) =
      shell_loop j' e' q' n_shells sld_solvent' sld' thickness' interface' shape' nu' n_steps' (shell + 1)"
    using Suc.hyps(1) [OF m] by (intro ext)
  then show ?case
    using lt
    by (simp add: shell_loop.simps [where shell = shell and s = s] assms)
qed

text \<open>
  C9. The value \<open>Iq\<close> returns does not change when the sharpness of a shell is
  negated: \<open>blend\<close> receives \<open>fmax(fabs(nu[shell]), 10\<^sup>-\<^sup>1\<^sup>4)\<close>, which does not
  depend on the sign. This holds for every input, a fault or a call that does not
  return included.
\<close>

theorem Iq_sharpness_sign:
  "Iq sph_j1c sas_erf q n_shells sld_solvent sld thickness interface shape (nu[i := - (nu ! i)]) n_steps =
   Iq sph_j1c sas_erf q n_shells sld_solvent sld thickness interface shape nu n_steps"
proof -
  have "shell_loop sph_j1c sas_erf q n_shells sld_solvent sld thickness interface shape
      (nu[i := - (nu ! i)]) n_steps 0 (Fin 0, Fin 0) =
    shell_loop sph_j1c sas_erf q n_shells sld_solvent sld thickness interface shape nu n_steps 0
      (Fin 0, Fin 0)"
    by (rule shell_loop_cong) (rule shell_step_sharpness_sign)
  then show ?thesis by (simp add: Iq_def Iq_amplitude_def)
qed

subsection \<open>A shell without an interface\<close>

lemma zero_width_skips:
  "(if Fin 0 / int_to_double n_steps = Fin 0 then Inr (f, r)
    else (case interface_loop j e q n_steps sld_l (Fin 0 / int_to_double n_steps) delta nu_shell
                 shape_shell 1 (f, r, sld_l) of
            None \<Rightarrow> Inl No_Return | Some (f3, r2, sld_in) \<Rightarrow> Inr (f3, r2))) = Inr (f, r)"
proof (cases "sint n_steps = 0")
  case True
  then have "sint n_steps < sint (1::c_int)" by simp
  then have "interface_loop j e q n_steps sld_l (Fin 0 / int_to_double n_steps) delta nu_shell
      shape_shell 1 (f, r, sld_l) = Some (f, r, sld_l)"
    by (rule interface_loop_exit)
  then show ?thesis by simp
next
  case False
  then show ?thesis by (simp add: int_to_double_def del: of_int_sint)
qed

lemma shell_step_zero_width:
  assumes "rd interface shell = Inr (Fin 0)"
    and "rd shape shell = Inr shape_i" "double_to_int shape_i = Inr code"
    and "rd shape' shell = Inr shape_i'" "double_to_int shape_i' = Inr code'"
  shows "shell_step j e q n_shells sld_solvent sld thickness interface shape' nu n_steps shell s =
    shell_step j e q n_shells sld_solvent sld thickness interface shape nu n_steps shell s"
proof -
  obtain f r where s: "s = (f, r)" by (cases s)
  show ?thesis
    unfolding s shell_step.simps Let_def assms bind_fault_simps zero_width_skips ..
qed

lemma shell_step_shape_entry:
  assumes "i < length interface" "interface ! i = Fin 0"
    and "i < length shape" "double_to_int (shape ! i) = Inr code"
    and "double_to_int shape_i' = Inr code'"
  shows "shell_step j e q n_shells sld_solvent sld thickness interface (shape[i := shape_i']) nu
      n_steps shell s =
    shell_step j e q n_shells sld_solvent sld thickness interface shape nu n_steps shell s"
proof (cases "0 \<le> sint shell \<and> nat (sint shell) = i")
  case True
  with assms have "rd interface shell = Inr (Fin 0)" "rd shape shell = Inr (shape ! i)"
    "rd (shape[i := shape_i']) shell = Inr shape_i'"
    by (simp_all add: rd_def)
  then show ?thesis
    using assms(4,5) by (intro shell_step_zero_width)
next
  case False
  then have same: "rd (shape[i := shape_i']) shell = rd shape shell"
    by (auto simp: rd_def)
  obtain f r where s: "s = (f, r)" by (cases s)
  show ?thesis
    unfolding s shell_step.simps Let_def same ..
qed

lemma shell_reads:
  assumes ok: "arrays_hold n_shells sld thickness interface shape nu codes" and i: "i < length sld"
  shows "rd sld (of_nat i) = Inr (sld ! i)" "rd thickness (of_nat i) = Inr (thickness ! i)"
    "rd interface (of_nat i) = Inr (interface ! i)" "rd nu (of_nat i) = Inr (nu ! i)"
    "rd shape (of_nat i) = Inr (shape ! i)" "double_to_int (shape ! i) = Inr (codes ! i)"
    "(if (of_nat i :: c_int) = n_shells - 1 then Inr sld_solvent else rd sld (of_nat i + 1)) =
      Inr (if Suc i < length sld then sld ! Suc i else sld_solvent)"
proof -
  note len = arrays_hold_lengths [OF ok]
  have i31: "i < 2147483648" using i len(1) by linarith
  show "rd sld (of_nat i) = Inr (sld ! i)" "rd thickness (of_nat i) = Inr (thickness ! i)"
    "rd interface (of_nat i) = Inr (interface ! i)" "rd nu (of_nat i) = Inr (nu ! i)"
    "rd shape (of_nat i) = Inr (shape ! i)"
    using i i31 len by (simp_all add: rd_of_nat)
  show "double_to_int (shape ! i) = Inr (codes ! i)" using i by (rule len(8))
  have "(of_nat i :: c_int) = n_shells - 1 \<longleftrightarrow> (of_nat (Suc i) :: c_int) = of_nat (length sld)"
    unfolding len(2) by (simp add: eq_diff_eq add.commute)
  also have "\<dots> \<longleftrightarrow> Suc i = length sld"
    using i len(1) by (intro c_int_of_nat_eq_iff) linarith+
  finally have last: "(of_nat i :: c_int) = n_shells - 1 \<longleftrightarrow> Suc i = length sld" .
  have "rd sld (of_nat i + 1) = Inr (sld ! Suc i)" if "Suc i < length sld"
    using rd_of_nat [of "Suc i" sld] that len(1) by (simp add: add.commute)
  then show "(if (of_nat i :: c_int) = n_shells - 1 then Inr sld_solvent else rd sld (of_nat i + 1)) =
      Inr (if Suc i < length sld then sld ! Suc i else sld_solvent)"
    using i by (auto simp: last)
qed

text \<open>
  C10. For a shell whose interface width is 0, \<open>blend\<close> is not called: the body of the
  outer loop adds the two uniform terms of the shell and nothing else, whatever the
  shell's shape code is, and \<open>Iq\<close> returns the same for every shape code of that
  shell, valid or not.
\<close>

theorem Iq_zero_width_shape:
  assumes "arrays_hold n_shells sld thickness interface shape nu codes"
    and "i < length sld" "interface ! i = Fin 0" "double_to_int shape_i' = Inr code'"
  shows "shell_step sph_j1c sas_erf q n_shells sld_solvent sld thickness interface shape nu n_steps
        (of_nat i) (f, r) =
      Inr (f - spec_uniform sph_j1c q r (sld ! i)
             + spec_uniform sph_j1c q (r + thickness ! i) (sld ! i),
           r + thickness ! i)
    \<and> Iq sph_j1c sas_erf q n_shells sld_solvent sld thickness interface (shape[i := shape_i']) nu
        n_steps =
      Iq sph_j1c sas_erf q n_shells sld_solvent sld thickness interface shape nu n_steps"
proof -
  note len = arrays_hold_lengths [OF assms(1)]
  note reads = shell_reads [OF assms(1,2)]
  have "shell_step sph_j1c sas_erf q n_shells sld_solvent sld thickness interface shape nu n_steps
        (of_nat i) (f, r) =
      Inr (f - spec_uniform sph_j1c q r (sld ! i)
             + spec_uniform sph_j1c q (r + thickness ! i) (sld ! i),
           r + thickness ! i)"
    unfolding shell_step.simps Let_def reads bind_fault_simps assms(3) zero_width_skips
      spec_uniform_def ..
  moreover have "shell_loop sph_j1c sas_erf q n_shells sld_solvent sld thickness interface
      (shape[i := shape_i']) nu n_steps 0 (Fin 0, Fin 0) =
    shell_loop sph_j1c sas_erf q n_shells sld_solvent sld thickness interface shape nu n_steps 0
      (Fin 0, Fin 0)"
    using assms len reads(6)
    by (intro shell_loop_cong shell_step_shape_entry) simp_all
  ultimately show ?thesis by (simp add: Iq_def Iq_amplitude_def)
qed

theorem Iq_zero_width_shape_witness:
  "arrays_hold 1 [Fin 1] [Fin 10] [Fin 0] [Fin 9] [Fin 1] [9] \<and> (0::nat) < length [Fin 1] \<and>
   [Fin 0] ! 0 = Fin 0 \<and> double_to_int (Fin 1) = Inr 1 \<and>
   Iq sph_j1c_ideal sas_erf_ideal (Fin 1) 1 (Fin 0) [Fin 1] [Fin 10] [Fin 0] ([Fin 9][0 := Fin 1])
     [Fin 1] 5 =
   Iq sph_j1c_ideal sas_erf_ideal (Fin 1) 1 (Fin 0) [Fin 1] [Fin 10] [Fin 0] [Fin 9] [Fin 1] 5"
proof -
  have ok: "arrays_hold 1 [Fin 1] [Fin 10] [Fin 0] [Fin 9] [Fin 1] [9]"
    using double_to_int_of_int [of 9] by (simp add: arrays_hold_def)
  have shell: "(0::nat) < length [Fin 1]" "[Fin 0] ! 0 = Fin 0" by simp_all
  have valid: "double_to_int (Fin 1) = Inr (1::c_int)"
    using double_to_int_of_int [of 1] by simp
  show ?thesis
    using Iq_zero_width_shape [OF ok shell valid, of sph_j1c_ideal sas_erf_ideal "Fin 1" "Fin 0" 5]
      ok shell valid
    by blast
qed

subsection \<open>The call at \<open>q = 0\<close>\<close>



















end
